theory Spec2Isabelle
  imports Main
begin

section \<open>pip/locations.py: where pip looks for configs and installs things\<close>

text \<open>
  The module reads the interpreter and the operating system (prefixes, user ids, the
  temp directory, \<open>os.path\<close>), creates at most one directory with one file in it, and
  computes a fixed set of path strings plus the function \<open>distutils_scheme\<close>.
  Every function of the source is embedded below under its own name. What the source
  imports (the standard library, \<open>pip.compat\<close>, \<open>pip.appdirs\<close>, \<open>distutils\<close>) is a field
  of the record \<open>env\<close>, so that theorems hold for every binding of those collaborators.
\<close>

subsection \<open>Exceptions\<close>

datatype error =
    OSError
  | IOError
  | KeyError
  | ImportError
  | AttributeError string
  | DistutilsOptionError
  | InstallationError string
  | SystemExit string

subsection \<open>The filesystem and the process output\<close>

text \<open>
  A filesystem entry is looked up by the path string the program passes. A directory and
  a regular file carry the uid of their owner, a symbolic link the key of its target.
\<close>

datatype node =
    Directory nat
  | RegularFile nat string
  | Symlink string

type_synonym filesystem = "string \<rightharpoonup> node"

record world =
  files :: filesystem
  stdout :: "string list"

text \<open>Following symbolic links, at most \<open>MAXSYMLINKS\<close> of them, as \<open>stat\<close> does.\<close>

fun follow :: "nat \<Rightarrow> filesystem \<Rightarrow> string \<Rightarrow> node option" where
  "follow 0 fs p = None"
| "follow (Suc n) fs p =
     (case fs p of
        Some (Symlink t) \<Rightarrow> follow n fs t
      | r \<Rightarrow> r)"

definition MAXSYMLINKS :: nat where
  "MAXSYMLINKS = 40"

definition os_path_exists :: "filesystem \<Rightarrow> string \<Rightarrow> bool" where
  "os_path_exists fs p = (follow MAXSYMLINKS fs p \<noteq> None)"

definition os_path_isfile :: "filesystem \<Rightarrow> string \<Rightarrow> bool" where
  "os_path_isfile fs p =
     (case follow MAXSYMLINKS fs p of
        Some (RegularFile u c) \<Rightarrow> True
      | _ \<Rightarrow> False)"

subsection \<open>The result of the distutils install command\<close>

record install_cmd =
  install_purelib :: string
  install_platlib :: string
  install_headers :: string
  install_scripts :: string
  install_data :: string
  install_lib :: "string option"

subsection \<open>The interpreter and operating system the module runs on\<close>

record env =
  WINDOWS :: bool
  sys_platform :: string
  sys_prefix :: string
  sys_real_prefix :: "string option"
  sys_base_prefix :: "string option"
  sys_version :: string
  site_file :: string
  site_USER_SITE :: string
  get_python_lib :: string
  gettempdir :: string
  getcwd :: "string option"
  geteuid :: nat
  getpwuid :: "nat \<rightharpoonup> string"
  getpass_getuser :: "string option"
  ioerror_is_oserror :: bool
  mkdir_permitted :: "filesystem \<Rightarrow> string \<Rightarrow> bool"
  open_w_permitted :: "filesystem \<Rightarrow> string \<Rightarrow> bool"
  path_join :: "string \<Rightarrow> string list \<Rightarrow> string"
  path_isabs :: "string \<Rightarrow> bool"
  path_abspath :: "string \<Rightarrow> string"
  path_realpath :: "filesystem \<Rightarrow> string \<Rightarrow> string"
  path_dirname :: "string \<Rightarrow> string"
  path_expanduser :: "string \<Rightarrow> string"
  user_cache_dir :: "string \<Rightarrow> string"
  site_config_dirs :: "string \<Rightarrow> string list"
  cfg_user :: bool
  cfg_home :: "string option"
  cfg_root :: "string option"
  finalize_options ::
    "string \<Rightarrow> bool \<Rightarrow> string option \<Rightarrow> string option \<Rightarrow> world \<Rightarrow> (error + install_cmd) \<times> world"

text \<open>
  \<^item> \<open>sys_real_prefix\<close> and \<open>sys_base_prefix\<close> are \<open>None\<close> when the attribute is absent
    from \<open>sys\<close>;
  \<^item> \<open>getcwd\<close> is \<open>None\<close> when \<open>os.getcwd()\<close> raises \<open>OSError\<close>;
  \<^item> \<open>getpwuid\<close> is the password database (uid to \<open>pw_name\<close>), no entry is \<open>KeyError\<close>;
  \<^item> \<open>getpass_getuser\<close> is \<open>None\<close> when no login name can be found;
  \<^item> \<open>geteuid\<close>, \<open>getpwuid\<close> are read on POSIX only, as in the source;
  \<^item> \<open>ioerror_is_oserror\<close> holds from Python 3.3 on, where \<open>IOError\<close> is \<open>OSError\<close>;
  \<^item> \<open>mkdir_permitted\<close>, \<open>open_w_permitted\<close> are the kernel's verdict on creating
    an entry (parent present and writable, space left), apart from the entry existing;
  \<^item> \<open>path_join\<close> to \<open>path_expanduser\<close> are \<open>os.path\<close> as bound on this platform,
    \<open>path_join a ps\<close> being \<open>os.path.join(a, *ps)\<close>;
  \<^item> \<open>cfg_user\<close>, \<open>cfg_home\<close>, \<open>cfg_root\<close> are the options of the install command
    after \<open>parse_config_files\<close>, \<open>finalize_options\<close> is the command's finalisation,
    which may create directories and may refuse its options.
\<close>

subsection \<open>System calls on the filesystem\<close>

definition os_mkdir :: "env \<Rightarrow> string \<Rightarrow> world \<Rightarrow> (error + unit) \<times> world" where
  "os_mkdir e path w =
     (if files w path \<noteq> None \<or> \<not> mkdir_permitted e (files w) path
      then (Inl OSError, w)
      else (Inr (), w\<lparr>files := (files w)(path \<mapsto> Directory (geteuid e))\<rparr>))"

definition write_text_file :: "env \<Rightarrow> string \<Rightarrow> string \<Rightarrow> world \<Rightarrow> (error + unit) \<times> world" where
  "write_text_file e filepath text w =
     (if \<not> open_w_permitted e (files w) filepath
      then (Inl IOError, w)
      else (Inr (), w\<lparr>files := (files w)(filepath \<mapsto> RegularFile (geteuid e) text)\<rparr>))"

definition print :: "string \<Rightarrow> world \<Rightarrow> world" where
  "print msg w = w\<lparr>stdout := stdout w @ [msg]\<rparr>"

text \<open>
  Modelled from the spec: \<open>pip.compat.get_path_uid\<close> is not among the sources. The spec
  has it "fetch the filesystem owner uid of the existing path", and the source's comment
  at its call says it "raises OSError for symlinks".
\<close>

definition get_path_uid :: "filesystem \<Rightarrow> string \<Rightarrow> error + nat" where
  "get_path_uid fs path =
     (case fs path of
        None \<Rightarrow> Inl OSError
      | Some (Symlink t) \<Rightarrow> Inl OSError
      | Some (Directory u) \<Rightarrow> Inr u
      | Some (RegularFile u c) \<Rightarrow> Inr u)"

text \<open>What an \<open>except OSError\<close> clause catches.\<close>

definition is_OSError :: "env \<Rightarrow> error \<Rightarrow> bool" where
  "is_OSError e x = (x = OSError \<or> (x = IOError \<and> ioerror_is_oserror e))"

subsection \<open>Constants of the module\<close>

definition CA_BUNDLE_PATHS :: "string list" where
  "CA_BUNDLE_PATHS =
     [''/etc/ssl/certs/ca-certificates.crt'',
      ''/etc/pki/tls/certs/ca-bundle.crt'',
      ''/etc/ssl/ca-bundle.pem'',
      ''/etc/ssl/cert.pem'',
      ''/usr/local/share/certs/ca-root-nss.crt'',
      ''/usr/local/etc/openssl/cert.pem'']"

definition nl :: string where
  "nl = [CHR 0x0A]"

definition DELETE_MARKER_MESSAGE :: string where
  "DELETE_MARKER_MESSAGE =
     ''This file is placed here by pip to indicate the source was put'' @ nl @
     ''here by pip.'' @ nl @
     nl @
     ''Once this package is successfully installed this source code will be'' @ nl @
     ''deleted (unless you remove this file).'' @ nl"

definition PIP_DELETE_MARKER_FILENAME :: string where
  "PIP_DELETE_MARKER_FILENAME = ''pip-delete-this-directory.txt''"

text \<open>\<open>distutils.command.install.SCHEME_KEYS\<close>.\<close>

definition SCHEME_KEYS :: "string list" where
  "SCHEME_KEYS = [''purelib'', ''platlib'', ''headers'', ''scripts'', ''data'']"

subsection \<open>The functions of the module\<close>

definition write_delete_marker_file :: "env \<Rightarrow> string \<Rightarrow> world \<Rightarrow> (error + unit) \<times> world" where
  "write_delete_marker_file e directory w =
     (let filepath = path_join e directory [PIP_DELETE_MARKER_FILENAME]
      in write_text_file e filepath DELETE_MARKER_MESSAGE w)"

text \<open>\<open>getattr(sys, "base_prefix", sys.prefix)\<close>.\<close>

definition base_prefix :: "env \<Rightarrow> string" where
  "base_prefix e = (case sys_base_prefix e of None \<Rightarrow> sys_prefix e | Some b \<Rightarrow> b)"

definition running_under_virtualenv :: "env \<Rightarrow> bool" where
  "running_under_virtualenv e =
     (if sys_real_prefix e \<noteq> None then True
      else if sys_prefix e \<noteq> base_prefix e then True
      else False)"

text \<open>
  The value is Python's: \<open>Some True\<close> is \<open>True\<close>, and \<open>None\<close> is the \<open>None\<close> a
  function returns when it runs off its end.
\<close>

definition virtualenv_no_global :: "env \<Rightarrow> filesystem \<Rightarrow> bool option" where
  "virtualenv_no_global e fs =
     (let site_mod_dir = path_dirname e (path_abspath e (site_file e));
          no_global_file = path_join e site_mod_dir [''no-global-site-packages.txt'']
      in if running_under_virtualenv e \<and> os_path_isfile fs no_global_file
         then Some True
         else None)"

definition get_username :: "env \<Rightarrow> error + string" where
  "get_username e =
     (if WINDOWS e
      then (case getpass_getuser e of None \<Rightarrow> Inl ImportError | Some u \<Rightarrow> Inr u)
      else (case getpwuid e (geteuid e) of None \<Rightarrow> Inl KeyError | Some u \<Rightarrow> Inr u))"

text \<open>\<open>s.replace(a, b)\<close> for single characters \<open>a\<close> and \<open>b\<close>.\<close>

definition replace_char :: "char \<Rightarrow> char \<Rightarrow> string \<Rightarrow> string" where
  "replace_char a b s = map (\<lambda>c. if c = a then b else c) s"

text \<open>The \<open>path\<close> of lines 114 to 117, for the username that \<open>__get_username\<close> returned.\<close>

definition build_path :: "env \<Rightarrow> string \<Rightarrow> string" where
  "build_path e username =
     path_join e (gettempdir e) [''pip_build_'' @ replace_char CHR '' '' CHR ''_'' username]"

text \<open>The \<open>msg\<close> of lines 134 to 137 and the text of the second \<open>print\<close>.\<close>

definition not_owned_msg :: "string \<Rightarrow> string" where
  "not_owned_msg path =
     ''The temporary folder for building ('' @ path @
     '') is either not owned by you, or is a symlink.''"

definition not_owned_advice :: string where
  "not_owned_advice =
     ''pip will not work until the temporary folder is either '' @
     ''deleted or is a real directory owned by your user account.''"

text \<open>
  The body of the \<open>try\<close> in \<open>_get_build_prefix\<close>. In the function itself the inner
  \<open>except OSError\<close> leaves \<open>file_uid\<close> at \<open>None\<close>, and \<open>OSError\<close> is all that
  \<open>get_path_uid\<close> raises.
\<close>

definition mkdir_and_mark :: "env \<Rightarrow> string \<Rightarrow> world \<Rightarrow> (error + unit) \<times> world" where
  "mkdir_and_mark e path w =
     (case os_mkdir e path w of
        (Inl x, w1) \<Rightarrow> (Inl x, w1)
      | (Inr u, w1) \<Rightarrow> write_delete_marker_file e path w1)"

definition get_build_prefix :: "env \<Rightarrow> world \<Rightarrow> (error + string) \<times> world" where
  "get_build_prefix e w =
     (case get_username e of
        Inl x \<Rightarrow> (Inl x, w)
      | Inr username \<Rightarrow>
          (let path = build_path e username
           in if WINDOWS e then (Inr path, w)
              else
                (case mkdir_and_mark e path w of
                   (Inr u, w1) \<Rightarrow> (Inr path, w1)
                 | (Inl x, w1) \<Rightarrow>
                     if \<not> is_OSError e x then (Inl x, w1)
                     else
                       (let file_uid =
                              (case get_path_uid (files w1) path of
                                 Inr uid \<Rightarrow> Some uid
                               | Inl y \<Rightarrow> None)
                        in if file_uid \<noteq> Some (geteuid e)
                           then (Inl (InstallationError (not_owned_msg path)),
                                 print not_owned_advice (print (not_owned_msg path) w1))
                           else (Inr path, w1)))))"

text \<open>
  \<open>get_username\<close> and \<open>get_build_prefix\<close> are the source's \<open>__get_username\<close> and
  \<open>_get_build_prefix\<close> (an identifier cannot begin with an underscore here).
\<close>

subsection \<open>The module-level code\<close>

text \<open>Lines 146 to 161: the two prefixes before they are normalised.\<close>

definition raw_prefixes :: "env \<Rightarrow> world \<Rightarrow> (error + string \<times> string) \<times> world" where
  "raw_prefixes e w =
     (if running_under_virtualenv e
      then (Inr (path_join e (sys_prefix e) [''build''],
                 path_join e (sys_prefix e) [''src'']), w)
      else
        (case get_build_prefix e w of
           (Inl x, w1) \<Rightarrow> (Inl x, w1)
         | (Inr build_prefix, w1) \<Rightarrow>
             (case getcwd e of
                None \<Rightarrow>
                  (Inl (SystemExit
                     ''The folder you are executing pip from can no longer be found.''), w1)
              | Some cwd \<Rightarrow> (Inr (build_prefix, path_join e cwd [''src'']), w1))))"

text \<open>Lines 166 and 167.\<close>

definition resolve_prefixes :: "env \<Rightarrow> world \<Rightarrow> (error + string \<times> string) \<times> world" where
  "resolve_prefixes e w =
     (case raw_prefixes e w of
        (Inl x, w1) \<Rightarrow> (Inl x, w1)
      | (Inr (build_prefix, src_prefix), w1) \<Rightarrow>
          (Inr (path_abspath e (path_realpath e (files w1) build_prefix),
                path_abspath e src_prefix), w1))"

record platform_paths =
  site_packages :: string
  user_site :: string
  user_dir :: string
  bin_py :: string
  bin_user :: string
  default_storage_dir :: string
  default_config_basename :: string
  default_config_file :: string
  default_log_file :: string

text \<open>Lines 171 to 203.\<close>

definition resolve_platform_paths :: "env \<Rightarrow> filesystem \<Rightarrow> platform_paths" where
  "resolve_platform_paths e fs =
     (let site_packages = get_python_lib e;
          user_site = site_USER_SITE e;
          user_dir = path_expanduser e ''~''
      in if WINDOWS e then
           (let bin_py = path_join e (sys_prefix e) [''Scripts''];
                bin_user = path_join e user_site [''Scripts''];
                (bin_py, bin_user) =
                   (if \<not> os_path_exists fs bin_py
                    then (path_join e (sys_prefix e) [''bin''], path_join e user_site [''bin''])
                    else (bin_py, bin_user));
                default_storage_dir = path_join e user_dir [''pip''];
                default_config_basename = ''pip.ini''
            in \<lparr>site_packages = site_packages, user_site = user_site, user_dir = user_dir,
                bin_py = bin_py, bin_user = bin_user,
                default_storage_dir = default_storage_dir,
                default_config_basename = default_config_basename,
                default_config_file = path_join e default_storage_dir [default_config_basename],
                default_log_file = path_join e default_storage_dir [''pip.log'']\<rparr>)
         else
           (let bin_py = path_join e (sys_prefix e) [''bin''];
                bin_user = path_join e user_site [''bin''];
                default_storage_dir = path_join e user_dir [''.pip''];
                default_config_basename = ''pip.conf'';
                default_config_file = path_join e default_storage_dir [default_config_basename];
                default_log_file = path_join e default_storage_dir [''pip.log''];
                (bin_py, default_log_file) =
                   (if take 6 (sys_platform e) = ''darwin'' \<and>
                       take 16 (sys_prefix e) = ''/System/Library/''
                    then (''/usr/local/bin'', path_join e user_dir [''Library/Logs/pip.log''])
                    else (bin_py, default_log_file))
            in \<lparr>site_packages = site_packages, user_site = user_site, user_dir = user_dir,
                bin_py = bin_py, bin_user = bin_user,
                default_storage_dir = default_storage_dir,
                default_config_basename = default_config_basename,
                default_config_file = default_config_file,
                default_log_file = default_log_file\<rparr>))"

record locations =
  CA_BUNDLE_PATH :: "string option"
  USER_CACHE_DIR :: string
  build_prefix :: string
  src_prefix :: string
  paths :: platform_paths
  site_config_files :: "string list"

text \<open>Importing the module: every module-level statement, in the source's order.\<close>

definition module_init :: "env \<Rightarrow> world \<Rightarrow> (error + locations) \<times> world" where
  "module_init e w =
     (let ca = List.find (os_path_exists (files w)) CA_BUNDLE_PATHS;
          cache = user_cache_dir e ''pip''
      in case resolve_prefixes e w of
           (Inl x, w1) \<Rightarrow> (Inl x, w1)
         | (Inr (bp, sp), w1) \<Rightarrow>
             (let pp = resolve_platform_paths e (files w1)
              in (Inr \<lparr>CA_BUNDLE_PATH = ca, USER_CACHE_DIR = cache,
                       build_prefix = bp, src_prefix = sp, paths = pp,
                       site_config_files =
                         map (\<lambda>path. path_join e path [default_config_basename pp])
                             (site_config_dirs e ''pip'')\<rparr>, w1)))"

subsection \<open>The install scheme\<close>

text \<open>\<open>getattr(i, name)\<close> on the attributes the scheme is read from.\<close>

definition getattr_install :: "install_cmd \<Rightarrow> string \<Rightarrow> string option" where
  "getattr_install i name =
     (if name = ''install_purelib'' then Some (install_purelib i)
      else if name = ''install_platlib'' then Some (install_platlib i)
      else if name = ''install_headers'' then Some (install_headers i)
      else if name = ''install_scripts'' then Some (install_scripts i)
      else if name = ''install_data'' then Some (install_data i)
      else None)"

text \<open>The loop of lines 228 and 229.\<close>

fun scheme_of_keys ::
  "install_cmd \<Rightarrow> string list \<Rightarrow> (string \<rightharpoonup> string) \<Rightarrow> error + (string \<rightharpoonup> string)" where
  "scheme_of_keys i [] scheme = Inr scheme"
| "scheme_of_keys i (key # keys) scheme =
     (case getattr_install i (''install_'' @ key) of
        None \<Rightarrow> Inl (AttributeError (''install_'' @ key))
      | Some v \<Rightarrow> scheme_of_keys i keys (scheme(key \<mapsto> v)))"

text \<open>Python's \<open>a or b\<close> on an optional string: \<open>None\<close> and the empty string are false.\<close>

definition py_or :: "string option \<Rightarrow> string option \<Rightarrow> string option" where
  "py_or a b = (case a of None \<Rightarrow> b | Some s \<Rightarrow> if s = [] then b else Some s)"

text \<open>The headers directory of a virtual environment, lines 236 to 242.\<close>

definition venv_headers :: "env \<Rightarrow> string \<Rightarrow> string" where
  "venv_headers e dist_name =
     path_join e (sys_prefix e)
       [''include'', ''site'', ''python'' @ take 3 (sys_version e), dist_name]"

definition distutils_scheme ::
  "env \<Rightarrow> string \<Rightarrow> bool \<Rightarrow> string option \<Rightarrow> string option \<Rightarrow> world
     \<Rightarrow> (error + (string \<rightharpoonup> string)) \<times> world" where
  "distutils_scheme e dist_name user home root w =
     (case finalize_options e dist_name (user \<or> cfg_user e) (py_or home (cfg_home e))
             (py_or root (cfg_root e)) w of
        (Inl x, w1) \<Rightarrow> (Inl x, w1)
      | (Inr i, w1) \<Rightarrow>
          (case scheme_of_keys i SCHEME_KEYS Map.empty of
             Inl x \<Rightarrow> (Inl x, w1)
           | Inr scheme \<Rightarrow>
               (let scheme =
                      (case install_lib i of
                         None \<Rightarrow> scheme
                       | Some lib \<Rightarrow> scheme(''purelib'' \<mapsto> lib, ''platlib'' \<mapsto> lib));
                    scheme =
                      (if running_under_virtualenv e
                       then
                         (let headers = venv_headers e dist_name;
                              scheme = scheme(''headers'' \<mapsto> headers)
                          in case root of
                               None \<Rightarrow> scheme
                             | Some r \<Rightarrow>
                                 scheme(''headers'' \<mapsto>
                                   path_join e r [drop 1 (path_abspath e headers)]))
                       else scheme)
                in (Inr scheme, w1))))"

text \<open>One of the values the module holds once it is imported.\<close>

definition init_value ::
  "(locations \<Rightarrow> 'a) \<Rightarrow> (error + locations) \<times> world \<Rightarrow> error + 'a" where
  "init_value field res = (case fst res of Inl x \<Rightarrow> Inl x | Inr loc \<Rightarrow> Inr (field loc))"

text \<open>One entry of the mapping that \<open>distutils_scheme\<close> returns.\<close>

definition scheme_entry ::
  "string \<Rightarrow> (error + (string \<rightharpoonup> string)) \<times> world \<Rightarrow> error + string option" where
  "scheme_entry key res = (case fst res of Inl x \<Rightarrow> Inl x | Inr scheme \<Rightarrow> Inr (scheme key))"

text \<open>
  The spec's words for the re-rooted headers path: the path "stripped of its leading
  path separator", a separator being a slash or, on Windows, a backslash.
\<close>

definition strip_leading_sep :: "string \<Rightarrow> string" where
  "strip_leading_sep s =
     (case s of
        [] \<Rightarrow> []
      | c # cs \<Rightarrow> if c = CHR ''/'' \<or> c = CHR 0x5C then cs else s)"

section \<open>Bindings of the collaborators\<close>

subsection \<open>\<open>os.path\<close> on POSIX\<close>

text \<open>
  The functions of \<open>posixpath\<close> that the module calls and that only read strings.
  \<open>posix_abspath\<close> takes the working directory that \<open>os.getcwd()\<close> returns.
\<close>

definition posix_isabs :: "string \<Rightarrow> bool" where
  "posix_isabs s = (case s of [] \<Rightarrow> False | c # cs \<Rightarrow> c = CHR ''/'')"

fun posix_join :: "string \<Rightarrow> string list \<Rightarrow> string" where
  "posix_join a [] = a"
| "posix_join a (b # p) =
     posix_join
       (if posix_isabs b then b
        else if a = [] \<or> last a = CHR ''/'' then a @ b
        else a @ ''/'' @ b) p"

fun split_slash :: "string \<Rightarrow> string list" where
  "split_slash [] = [[]]"
| "split_slash (c # cs) =
     (if c = CHR ''/'' then [] # split_slash cs
      else (case split_slash cs of
              [] \<Rightarrow> [[c]]
            | x # xs \<Rightarrow> (c # x) # xs))"

fun join_slash :: "string list \<Rightarrow> string" where
  "join_slash [] = []"
| "join_slash [x] = x"
| "join_slash (x # y # ys) = x @ ''/'' @ join_slash (y # ys)"

definition normpath_step :: "nat \<Rightarrow> string list \<Rightarrow> string \<Rightarrow> string list" where
  "normpath_step initial_slashes new_comps cmp =
     (if cmp = [] \<or> cmp = ''.'' then new_comps
      else if cmp \<noteq> ''..'' \<or> (initial_slashes = 0 \<and> new_comps = [])
                \<or> (new_comps \<noteq> [] \<and> last new_comps = ''..'')
      then new_comps @ [cmp]
      else if new_comps \<noteq> [] then butlast new_comps
      else new_comps)"

definition posix_normpath :: "string \<Rightarrow> string" where
  "posix_normpath path =
     (if path = [] then ''.''
      else
        (let initial_slashes =
               (if posix_isabs path
                then (if take 2 path = ''//'' \<and> take 3 path \<noteq> ''///'' then 2 else 1)
                else (0::nat));
             comps = foldl (normpath_step initial_slashes) [] (split_slash path);
             p = replicate initial_slashes CHR ''/'' @ join_slash comps
         in if p = [] then ''.'' else p))"

definition posix_abspath :: "string \<Rightarrow> string \<Rightarrow> string" where
  "posix_abspath cwd path =
     posix_normpath (if posix_isabs path then path else posix_join cwd [path])"

definition posix_dirname :: "string \<Rightarrow> string" where
  "posix_dirname p =
     (let head = rev (dropWhile (\<lambda>c. c \<noteq> CHR ''/'') (rev p))
      in if head \<noteq> [] \<and> head \<noteq> replicate (length head) CHR ''/''
         then rev (dropWhile (\<lambda>c. c = CHR ''/'') (rev head))
         else head)"

subsection \<open>A Linux interpreter outside any virtual environment\<close>

definition linux_install :: install_cmd where
  "linux_install =
     \<lparr>install_purelib = ''/usr/local/lib/python2.7/dist-packages'',
      install_platlib = ''/usr/local/lib/python2.7/dist-packages'',
      install_headers = ''/usr/local/include/python2.7/pkg'',
      install_scripts = ''/usr/local/bin'',
      install_data = ''/usr/local'',
      install_lib = Some ''/opt/pkgs/lib''\<rparr>"

definition env_linux :: env where
  "env_linux =
     \<lparr>WINDOWS = False,
      sys_platform = ''linux2'',
      sys_prefix = ''/usr'',
      sys_real_prefix = None,
      sys_base_prefix = None,
      sys_version = ''2.7.6 (default)'',
      site_file = ''/usr/lib/python2.7/site.pyc'',
      site_USER_SITE = ''/home/alice/.local/lib/python2.7/site-packages'',
      get_python_lib = ''/usr/lib/python2.7/dist-packages'',
      gettempdir = ''/tmp'',
      getcwd = Some ''/home/alice/proj'',
      geteuid = 1000,
      getpwuid = [1000 \<mapsto> ''alice smith''],
      getpass_getuser = Some ''alice smith'',
      ioerror_is_oserror = False,
      mkdir_permitted = (\<lambda>fs p. True),
      open_w_permitted = (\<lambda>fs p. True),
      path_join = posix_join,
      path_isabs = posix_isabs,
      path_abspath = posix_abspath ''/home/alice/proj'',
      path_realpath = (\<lambda>fs p. posix_abspath ''/home/alice/proj'' p),
      path_dirname = posix_dirname,
      path_expanduser = (\<lambda>p. if p = ''~'' then ''/home/alice'' else p),
      user_cache_dir = (\<lambda>app. ''/home/alice/.cache/'' @ app),
      site_config_dirs = (\<lambda>app. [''/etc/xdg/'' @ app, ''/etc'']),
      cfg_user = False,
      cfg_home = None,
      cfg_root = None,
      finalize_options = (\<lambda>dist_name user home root w. (Inr linux_install, w))\<rparr>"

text \<open>
  A Python 3 interpreter of its own: the legacy attribute is absent and the base
  prefix is the prefix.
\<close>

definition env_py3 :: env where
  "env_py3 = env_linux\<lparr>sys_base_prefix := Some ''/usr'', sys_version := ''3.4.0 (default)''\<rparr>"

definition world_empty :: world where
  "world_empty = \<lparr>files = Map.empty, stdout = []\<rparr>"

text \<open>The marker file of virtualenv lies beside \<open>site.py\<close>.\<close>

definition world_marker :: world where
  "world_marker =
     \<lparr>files = [''/usr/lib/python2.7/no-global-site-packages.txt'' \<mapsto> RegularFile 0 []],
      stdout = []\<rparr>"

text \<open>The build directory is there already and belongs to the user.\<close>

definition world_own_build :: world where
  "world_own_build = \<lparr>files = [''/tmp/pip_build_alice_smith'' \<mapsto> Directory 1000], stdout = []\<rparr>"

text \<open>The build directory as \<open>_get_build_prefix\<close> leaves it when it has made it.\<close>

definition world_built :: world where
  "world_built =
     \<lparr>files = [''/tmp/pip_build_alice_smith'' \<mapsto> Directory 1000,
               ''/tmp/pip_build_alice_smith/pip-delete-this-directory.txt'' \<mapsto>
                 RegularFile 1000 DELETE_MARKER_MESSAGE],
      stdout = []\<rparr>"

text \<open>The build directory is there already and belongs to root.\<close>

definition world_foreign_build :: world where
  "world_foreign_build = \<lparr>files = [''/tmp/pip_build_alice_smith'' \<mapsto> Directory 0], stdout = []\<rparr>"

subsection \<open>A virtual environment under a symbolic link, as on Mac OS X\<close>

text \<open>\<open>/tmp\<close> is a symbolic link to \<open>/private/tmp\<close>, and \<open>realpath\<close> resolves it.\<close>

definition env_venv :: env where
  "env_venv =
     env_linux
       \<lparr>sys_platform := ''darwin'',
        sys_prefix := ''/tmp/venv'',
        sys_real_prefix := Some ''/usr'',
        site_file := ''/tmp/venv/lib/python2.7/site.pyc'',
        path_realpath :=
          (\<lambda>fs p. if fs ''/tmp'' = Some (Symlink ''/private/tmp'') \<and> take 5 p = ''/tmp/''
                  then ''/private'' @ p else p)\<rparr>"

definition world_venv :: world where
  "world_venv =
     \<lparr>files = [''/tmp'' \<mapsto> Symlink ''/private/tmp'',
               ''/private/tmp'' \<mapsto> Directory 0,
               ''/tmp/venv/lib/python2.7/no-global-site-packages.txt'' \<mapsto> RegularFile 1000 []],
      stdout = []\<rparr>"

subsection \<open>A virtual environment on Windows\<close>

definition bs :: char where
  "bs = CHR 0x5C"

text \<open>
  \<open>ntpath.join\<close> on components that carry no drive and do not begin with a separator,
  which is all it is given here: they are appended, after a backslash unless the path
  so far is empty, a bare drive, or ends in a separator.
\<close>

fun nt_join :: "string \<Rightarrow> string list \<Rightarrow> string" where
  "nt_join a [] = a"
| "nt_join a (b # p) =
     nt_join
       (if a = [] \<or> last a = bs \<or> last a = CHR ''/'' \<or> (length a = 2 \<and> last a = CHR '':'')
        then a @ b
        else a @ [bs] @ b) p"

text \<open>\<open>ntpath.isabs\<close> on paths with a drive letter or none: what follows the drive begins with a separator.\<close>

definition nt_isabs :: "string \<Rightarrow> bool" where
  "nt_isabs s =
     (case (if take 1 (drop 1 s) = '':'' then drop 2 s else s) of
        [] \<Rightarrow> False
      | c # cs \<Rightarrow> c = bs \<or> c = CHR ''/'')"

text \<open>
  The paths of this environment are absolute and normalised already, so
  \<open>ntpath.abspath\<close> returns them as they are, and so does \<open>ntpath.realpath\<close>, which
  is \<open>ntpath.abspath\<close> and resolves no link.
\<close>

definition env_windows :: env where
  "env_windows =
     \<lparr>WINDOWS = True,
      sys_platform = ''win32'',
      sys_prefix = ''C:'' @ [bs] @ ''venv'',
      sys_real_prefix = Some (''C:'' @ [bs] @ ''Python27''),
      sys_base_prefix = None,
      sys_version = ''2.7.6 (default)'',
      site_file = ''C:'' @ [bs] @ ''venv'' @ [bs] @ ''Lib'' @ [bs] @ ''site.pyc'',
      site_USER_SITE = ''C:'' @ [bs] @ ''Users'' @ [bs] @ ''bob'' @ [bs] @ ''site-packages'',
      get_python_lib = ''C:'' @ [bs] @ ''venv'' @ [bs] @ ''Lib'' @ [bs] @ ''site-packages'',
      gettempdir = ''C:'' @ [bs] @ ''Temp'',
      getcwd = Some (''C:'' @ [bs] @ ''proj''),
      geteuid = 0,
      getpwuid = Map.empty,
      getpass_getuser = Some ''bob'',
      ioerror_is_oserror = False,
      mkdir_permitted = (\<lambda>fs p. True),
      open_w_permitted = (\<lambda>fs p. True),
      path_join = nt_join,
      path_isabs = nt_isabs,
      path_abspath = (\<lambda>p. p),
      path_realpath = (\<lambda>fs p. p),
      path_dirname = (\<lambda>p. rev (drop 1 (dropWhile (\<lambda>c. c \<noteq> bs) (rev p)))),
      path_expanduser = (\<lambda>p. if p = ''~'' then ''C:'' @ [bs] @ ''Users'' @ [bs] @ ''bob'' else p),
      user_cache_dir = (\<lambda>app. ''C:'' @ [bs] @ ''Users'' @ [bs] @ ''bob'' @ [bs] @ app @ [bs] @ ''Cache''),
      site_config_dirs = (\<lambda>app. [''C:'' @ [bs] @ ''ProgramData'' @ [bs] @ app]),
      cfg_user = False,
      cfg_home = None,
      cfg_root = None,
      finalize_options =
        (\<lambda>dist_name user home root w.
           (Inr \<lparr>install_purelib = ''C:'' @ [bs] @ ''venv'' @ [bs] @ ''Lib'' @ [bs] @ ''site-packages'',
                 install_platlib = ''C:'' @ [bs] @ ''venv'' @ [bs] @ ''Lib'' @ [bs] @ ''site-packages'',
                 install_headers = ''C:'' @ [bs] @ ''venv'' @ [bs] @ ''Include'' @ [bs] @ dist_name,
                 install_scripts = ''C:'' @ [bs] @ ''venv'' @ [bs] @ ''Scripts'',
                 install_data = ''C:'' @ [bs] @ ''venv'',
                 install_lib = None\<rparr>, w))\<rparr>"

text \<open>The same interpreter outside the virtual environment.\<close>

definition env_windows_global :: env where
  "env_windows_global = env_windows\<lparr>sys_real_prefix := None\<rparr>"

text \<open>
  The build directory is a symbolic link that somebody else planted, and the
  environment has a \<open>Scripts\<close> directory.
\<close>

definition world_windows :: world where
  "world_windows =
     \<lparr>files = [''C:'' @ [bs] @ ''Temp'' @ [bs] @ ''pip_build_bob'' \<mapsto>
                 Symlink (''C:'' @ [bs] @ ''Users'' @ [bs] @ ''eve''),
               ''C:'' @ [bs] @ ''venv'' @ [bs] @ ''Scripts'' \<mapsto> Directory 0],
      stdout = []\<rparr>"

section \<open>Detecting a virtual environment\<close>

text \<open>
  C3: \<open>running_under_virtualenv\<close> is true whenever the legacy \<open>real_prefix\<close> attribute
  is present, whatever the prefixes are, and false whenever the attribute is absent and
  the active prefix equals the base prefix.
\<close>

theorem running_under_virtualenv_marker_and_prefix:
  "(sys_real_prefix e \<noteq> None \<longrightarrow> running_under_virtualenv e) \<and>
   (sys_real_prefix e = None \<and> sys_prefix e = base_prefix e \<longrightarrow> \<not> running_under_virtualenv e)"
  by (simp add: running_under_virtualenv_def)

theorem running_under_virtualenv_marker_and_prefix_witness:
  "sys_real_prefix env_venv \<noteq> None \<and> sys_prefix env_venv = base_prefix env_venv \<and>
   running_under_virtualenv env_venv \<and>
   sys_real_prefix env_py3 = None \<and> sys_prefix env_py3 = base_prefix env_py3 \<and>
   \<not> running_under_virtualenv env_py3"
  using running_under_virtualenv_marker_and_prefix [of env_venv]
        running_under_virtualenv_marker_and_prefix [of env_py3]
  by (simp add: env_venv_def env_py3_def env_linux_def base_prefix_def)

lemma virtualenv_no_global_outside:
  "\<not> running_under_virtualenv e \<Longrightarrow> virtualenv_no_global e fs = None"
  by (simp add: virtualenv_no_global_def Let_def)

text \<open>
  C2: outside a virtual environment \<open>virtualenv_no_global\<close> is claimed to return the
  value \<open>False\<close>, whether the marker file exists or not. The function has no \<open>return\<close>
  on that path: on the Linux interpreter, with the marker file present or absent, it
  returns \<open>None\<close>, which is not \<open>False\<close>.
\<close>

theorem virtualenv_no_global_returns_None:
  "\<not> running_under_virtualenv env_linux \<and>
   os_path_isfile (files world_marker)
     (path_join env_linux (path_dirname env_linux (path_abspath env_linux (site_file env_linux)))
        [''no-global-site-packages.txt'']) \<and>
   virtualenv_no_global env_linux (files world_marker) = None \<and>
   virtualenv_no_global env_linux (files world_marker) \<noteq> Some False \<and>
   virtualenv_no_global env_linux (files world_empty) = None"
proof -
  have v: "\<not> running_under_virtualenv env_linux"
    by (simp add: running_under_virtualenv_def base_prefix_def env_linux_def)
  have a: "path_abspath env_linux (site_file env_linux) = ''/usr/lib/python2.7/site.pyc''"
    by (simp add: env_linux_def posix_abspath_def posix_normpath_def posix_isabs_def
        normpath_step_def Let_def)
  have d: "path_dirname env_linux ''/usr/lib/python2.7/site.pyc'' = ''/usr/lib/python2.7''"
    by (simp add: env_linux_def posix_dirname_def Let_def)
  have j: "path_join env_linux ''/usr/lib/python2.7'' [''no-global-site-packages.txt''] =
      ''/usr/lib/python2.7/no-global-site-packages.txt''"
    by (simp add: env_linux_def posix_isabs_def)
  have f: "os_path_isfile (files world_marker) ''/usr/lib/python2.7/no-global-site-packages.txt''"
    by (simp add: os_path_isfile_def MAXSYMLINKS_def eval_nat_numeral world_marker_def)
  show ?thesis
    using v f by (simp add: virtualenv_no_global_def Let_def a d j)
qed

section \<open>The build directory\<close>

lemma os_mkdir_existing:
  "files w p \<noteq> None \<Longrightarrow> os_mkdir e p w = (Inl OSError, w)"
  by (simp add: os_mkdir_def)

lemma mkdir_and_mark_existing:
  "files w p \<noteq> None \<Longrightarrow> mkdir_and_mark e p w = (Inl OSError, w)"
  by (simp add: mkdir_and_mark_def os_mkdir_existing)

lemma mkdir_and_mark_failed_mkdir:
  "fst (os_mkdir e p w) = Inl OSError \<Longrightarrow> mkdir_and_mark e p w = (Inl OSError, w)"
  by (auto simp: mkdir_and_mark_def os_mkdir_def split: if_splits)

lemma get_build_prefix_result_path:
  assumes "get_username e = Inr u" and "get_build_prefix e w = (Inr p, w')"
  shows "p = build_path e u"
  using assms
  by (auto simp: get_build_prefix_def Let_def split: if_splits prod.splits sum.splits)

lemma get_build_prefix_after_failed_mkdir:
  assumes "\<not> WINDOWS e" and "get_username e = Inr u"
      and "mkdir_and_mark e (build_path e u) w = (Inl OSError, w)"
      and "get_build_prefix e w = (r, w')"
  shows "files w' = files w"
  using assms
  by (auto simp: get_build_prefix_def Let_def is_OSError_def print_def split: if_splits)

lemma username_linux: "get_username env_linux = Inr ''alice smith''"
  by (simp add: env_linux_def get_username_def)

lemma username_windows: "get_username env_windows = Inr ''bob''"
  by (simp add: env_windows_def get_username_def)

lemma build_path_linux: "build_path env_linux ''alice smith'' = ''/tmp/pip_build_alice_smith''"
  by (simp add: env_linux_def build_path_def replace_char_def posix_isabs_def)

lemma build_path_windows:
  "build_path env_windows ''bob'' = ''C:'' @ [bs] @ ''Temp'' @ [bs] @ ''pip_build_bob''"
  by (simp add: env_windows_def build_path_def replace_char_def bs_def)

lemma not_windows_linux: "\<not> WINDOWS env_linux"
  by (simp add: env_linux_def)

lemma windows_windows: "WINDOWS env_windows"
  by (simp add: env_windows_def)

lemma marker_path_linux:
  "path_join env_linux ''/tmp/pip_build_alice_smith'' [PIP_DELETE_MARKER_FILENAME] =
     ''/tmp/pip_build_alice_smith/pip-delete-this-directory.txt''"
  by (simp add: env_linux_def PIP_DELETE_MARKER_FILENAME_def posix_isabs_def)

lemma get_build_prefix_linux_own:
  "get_build_prefix env_linux world_own_build =
     (Inr ''/tmp/pip_build_alice_smith'', world_own_build)"
  by (simp add: get_build_prefix_def Let_def username_linux build_path_linux
      not_windows_linux mkdir_and_mark_def os_mkdir_def is_OSError_def get_path_uid_def
      world_own_build_def)
    (simp add: env_linux_def)

lemma get_build_prefix_linux_fresh:
  "get_build_prefix env_linux world_empty = (Inr ''/tmp/pip_build_alice_smith'', world_built)"
proof -
  have m: "os_mkdir env_linux ''/tmp/pip_build_alice_smith'' world_empty =
      (Inr (), \<lparr>files = [''/tmp/pip_build_alice_smith'' \<mapsto> Directory 1000], stdout = []\<rparr>)"
    by (simp add: os_mkdir_def world_empty_def env_linux_def)
  have k: "mkdir_and_mark env_linux ''/tmp/pip_build_alice_smith'' world_empty =
      (Inr (), world_built)"
    by (simp add: mkdir_and_mark_def m write_delete_marker_file_def marker_path_linux
        write_text_file_def world_built_def)
      (simp add: env_linux_def)
  show ?thesis
    by (simp add: get_build_prefix_def Let_def username_linux build_path_linux
        not_windows_linux k)
qed

text \<open>
  C1: when the build directory path exists already and its owner uid differs from the
  effective uid (also when the owner cannot be read because the path is a symbolic
  link), \<open>_get_build_prefix\<close> prints its two messages and raises
  \<open>InstallationError\<close>; it does not return the path. This is the code of lines 121
  to 144, which runs where there is an effective uid, that is, off Windows.
\<close>

theorem get_build_prefix_rejects_foreign_dir:
  assumes "\<not> WINDOWS e"
      and "get_username e = Inr u"
      and "files w (build_path e u) \<noteq> None"
      and "get_path_uid (files w) (build_path e u) \<noteq> Inr (geteuid e)"
  shows "get_build_prefix e w =
           (Inl (InstallationError (not_owned_msg (build_path e u))),
            print not_owned_advice (print (not_owned_msg (build_path e u)) w))"
proof -
  have m: "mkdir_and_mark e (build_path e u) w = (Inl OSError, w)"
    using assms(3) by (rule mkdir_and_mark_existing)
  have f: "(case get_path_uid (files w) (build_path e u) of
              Inr uid \<Rightarrow> Some uid | Inl y \<Rightarrow> None) \<noteq> Some (geteuid e)"
    using assms(4) by (cases "get_path_uid (files w) (build_path e u)") auto
  show ?thesis
    using assms(1,2) m f by (simp add: get_build_prefix_def Let_def is_OSError_def)
qed

theorem get_build_prefix_rejects_foreign_dir_witness:
  "\<not> WINDOWS env_linux \<and> get_username env_linux = Inr ''alice smith'' \<and>
   build_path env_linux ''alice smith'' = ''/tmp/pip_build_alice_smith'' \<and>
   files world_foreign_build ''/tmp/pip_build_alice_smith'' = Some (Directory 0) \<and>
   get_path_uid (files world_foreign_build) ''/tmp/pip_build_alice_smith'' = Inr 0 \<and>
   geteuid env_linux = 1000 \<and>
   fst (get_build_prefix env_linux world_foreign_build) =
     Inl (InstallationError (not_owned_msg ''/tmp/pip_build_alice_smith''))"
proof -
  have f: "files world_foreign_build ''/tmp/pip_build_alice_smith'' = Some (Directory 0)"
    by (simp add: world_foreign_build_def)
  have g: "get_path_uid (files world_foreign_build) ''/tmp/pip_build_alice_smith'' = Inr 0"
    by (simp add: get_path_uid_def f)
  have u: "geteuid env_linux = 1000"
    by (simp add: env_linux_def)
  have "fst (get_build_prefix env_linux world_foreign_build) =
     Inl (InstallationError (not_owned_msg ''/tmp/pip_build_alice_smith''))"
    using get_build_prefix_rejects_foreign_dir
            [OF not_windows_linux username_linux, of world_foreign_build]
    by (simp add: build_path_linux f g u)
  then show ?thesis
    using not_windows_linux username_linux build_path_linux f g u by blast
qed

text \<open>
  C4: for every username, the path \<open>_get_build_prefix\<close> computes is the temp directory
  joined with \<open>pip_build_\<close> and the username, each space replaced by an underscore. On
  Windows that path is returned at once, the filesystem and the output as they were;
  elsewhere, whenever a path is returned it is that one.
\<close>

theorem get_build_prefix_path:
  assumes "get_username e = Inr u"
  shows "(WINDOWS e \<longrightarrow>
            get_build_prefix e w =
              (Inr (path_join e (gettempdir e)
                     [''pip_build_'' @ map (\<lambda>c. if c = CHR '' '' then CHR ''_'' else c) u]), w)) \<and>
         (\<forall>p w'. get_build_prefix e w = (Inr p, w') \<longrightarrow>
            p = path_join e (gettempdir e)
                  [''pip_build_'' @ map (\<lambda>c. if c = CHR '' '' then CHR ''_'' else c) u])"
proof -
  have b: "build_path e u =
      path_join e (gettempdir e)
        [''pip_build_'' @ map (\<lambda>c. if c = CHR '' '' then CHR ''_'' else c) u]"
    by (simp add: build_path_def replace_char_def)
  have 1: "WINDOWS e \<longrightarrow> get_build_prefix e w = (Inr (build_path e u), w)"
    using assms by (simp add: get_build_prefix_def Let_def)
  have 2: "\<forall>p w'. get_build_prefix e w = (Inr p, w') \<longrightarrow> p = build_path e u"
    using get_build_prefix_result_path [OF assms] by blast
  show ?thesis using 1 2 unfolding b by blast
qed

theorem get_build_prefix_path_witness:
  "get_username env_windows = Inr ''bob'' \<and> WINDOWS env_windows \<and>
   get_build_prefix env_windows world_windows =
     (Inr (''C:'' @ [bs] @ ''Temp'' @ [bs] @ ''pip_build_bob''), world_windows) \<and>
   get_username env_linux = Inr ''alice smith'' \<and>
   get_build_prefix env_linux world_own_build =
     (Inr ''/tmp/pip_build_alice_smith'', world_own_build) \<and>
   ''/tmp/pip_build_alice_smith'' =
     path_join env_linux (gettempdir env_linux)
       [''pip_build_'' @ map (\<lambda>c. if c = CHR '' '' then CHR ''_'' else c) ''alice smith'']"
proof -
  have pw: "path_join env_windows (gettempdir env_windows)
       [''pip_build_'' @ map (\<lambda>c. if c = CHR '' '' then CHR ''_'' else c) ''bob''] =
     ''C:'' @ [bs] @ ''Temp'' @ [bs] @ ''pip_build_bob''"
    by (simp add: env_windows_def bs_def)
  note l = get_build_prefix_linux_own
  have 1: "get_build_prefix env_windows world_windows =
     (Inr (''C:'' @ [bs] @ ''Temp'' @ [bs] @ ''pip_build_bob''), world_windows)"
    using get_build_prefix_path [OF username_windows, of world_windows] windows_windows
    unfolding pw by blast
  have 2: "''/tmp/pip_build_alice_smith'' =
     path_join env_linux (gettempdir env_linux)
       [''pip_build_'' @ map (\<lambda>c. if c = CHR '' '' then CHR ''_'' else c) ''alice smith'']"
    using get_build_prefix_path [OF username_linux, of world_own_build]
    unfolding l by blast
  show ?thesis
    using username_windows username_linux windows_windows l 1 2 by blast
qed

text \<open>
  C9: on a platform other than Windows, when creating the directory fails and the owner
  uid of the existing build path is the effective uid, \<open>_get_build_prefix\<close> returns the
  path with no error, the filesystem and the output as they were, so no marker file is
  written. And whenever a call changes what is at the marker file's path, the build
  path did not exist before and \<open>os.mkdir\<close> made it in this call.
\<close>

theorem get_build_prefix_reuses_own_dir:
  assumes "\<not> WINDOWS e" and "get_username e = Inr u"
  shows "(fst (os_mkdir e (build_path e u) w) = Inl OSError \<and>
          get_path_uid (files w) (build_path e u) = Inr (geteuid e) \<longrightarrow>
            get_build_prefix e w = (Inr (build_path e u), w)) \<and>
         (\<forall>r w'. get_build_prefix e w = (r, w') \<and>
            files w' (path_join e (build_path e u) [PIP_DELETE_MARKER_FILENAME]) \<noteq>
            files w (path_join e (build_path e u) [PIP_DELETE_MARKER_FILENAME]) \<longrightarrow>
              files w (build_path e u) = None \<and> fst (os_mkdir e (build_path e u) w) = Inr ())"
proof (intro conjI impI allI)
  assume a: "fst (os_mkdir e (build_path e u) w) = Inl OSError \<and>
             get_path_uid (files w) (build_path e u) = Inr (geteuid e)"
  then have m: "mkdir_and_mark e (build_path e u) w = (Inl OSError, w)"
    by (simp add: mkdir_and_mark_failed_mkdir)
  show "get_build_prefix e w = (Inr (build_path e u), w)"
    using assms a m by (simp add: get_build_prefix_def Let_def is_OSError_def)
next
  fix r w'
  assume a: "get_build_prefix e w = (r, w') \<and>
            files w' (path_join e (build_path e u) [PIP_DELETE_MARKER_FILENAME]) \<noteq>
            files w (path_join e (build_path e u) [PIP_DELETE_MARKER_FILENAME])"
  show "files w (build_path e u) = None"
  proof (rule ccontr)
    assume "files w (build_path e u) \<noteq> None"
    then have "mkdir_and_mark e (build_path e u) w = (Inl OSError, w)"
      by (rule mkdir_and_mark_existing)
    then have "files w' = files w"
      using assms a get_build_prefix_after_failed_mkdir by blast
    then show False using a by simp
  qed
next
  fix r w'
  assume a: "get_build_prefix e w = (r, w') \<and>
            files w' (path_join e (build_path e u) [PIP_DELETE_MARKER_FILENAME]) \<noteq>
            files w (path_join e (build_path e u) [PIP_DELETE_MARKER_FILENAME])"
  show "fst (os_mkdir e (build_path e u) w) = Inr ()"
  proof (rule ccontr)
    assume "fst (os_mkdir e (build_path e u) w) \<noteq> Inr ()"
    then have "fst (os_mkdir e (build_path e u) w) = Inl OSError"
      by (auto simp: os_mkdir_def split: if_splits)
    then have "mkdir_and_mark e (build_path e u) w = (Inl OSError, w)"
      by (rule mkdir_and_mark_failed_mkdir)
    then have "files w' = files w"
      using assms a get_build_prefix_after_failed_mkdir by blast
    then show False using a by simp
  qed
qed

theorem get_build_prefix_reuses_own_dir_witness:
  "\<not> WINDOWS env_linux \<and> get_username env_linux = Inr ''alice smith'' \<and>
   fst (os_mkdir env_linux ''/tmp/pip_build_alice_smith'' world_own_build) = Inl OSError \<and>
   get_path_uid (files world_own_build) ''/tmp/pip_build_alice_smith'' = Inr (geteuid env_linux) \<and>
   get_build_prefix env_linux world_own_build =
     (Inr ''/tmp/pip_build_alice_smith'', world_own_build) \<and>
   get_build_prefix env_linux world_empty = (Inr ''/tmp/pip_build_alice_smith'', world_built) \<and>
   files world_built ''/tmp/pip_build_alice_smith/pip-delete-this-directory.txt'' \<noteq>
     files world_empty ''/tmp/pip_build_alice_smith/pip-delete-this-directory.txt'' \<and>
   files world_empty ''/tmp/pip_build_alice_smith'' = None \<and>
   fst (os_mkdir env_linux ''/tmp/pip_build_alice_smith'' world_empty) = Inr ()"
proof -
  note t = get_build_prefix_reuses_own_dir [OF not_windows_linux username_linux,
      unfolded build_path_linux marker_path_linux]
  have m: "fst (os_mkdir env_linux ''/tmp/pip_build_alice_smith'' world_own_build) = Inl OSError"
    by (simp add: os_mkdir_def world_own_build_def)
  have g: "get_path_uid (files world_own_build) ''/tmp/pip_build_alice_smith'' =
      Inr (geteuid env_linux)"
    by (simp add: get_path_uid_def world_own_build_def env_linux_def)
  have 1: "get_build_prefix env_linux world_own_build =
      (Inr ''/tmp/pip_build_alice_smith'', world_own_build)"
    using t [of world_own_build] m g by blast
  have d: "files world_built ''/tmp/pip_build_alice_smith/pip-delete-this-directory.txt'' \<noteq>
      files world_empty ''/tmp/pip_build_alice_smith/pip-delete-this-directory.txt''"
    by (simp add: world_built_def world_empty_def)
  have 2: "files world_empty ''/tmp/pip_build_alice_smith'' = None \<and>
      fst (os_mkdir env_linux ''/tmp/pip_build_alice_smith'' world_empty) = Inr ()"
    using t [of world_empty] get_build_prefix_linux_fresh d by blast
  show ?thesis
    using not_windows_linux username_linux m g 1 get_build_prefix_linux_fresh d 2 by blast
qed

section \<open>The install scheme\<close>

lemma scheme_of_SCHEME_KEYS:
  "scheme_of_keys i SCHEME_KEYS Map.empty =
     Inr [''purelib'' \<mapsto> install_purelib i, ''platlib'' \<mapsto> install_platlib i,
          ''headers'' \<mapsto> install_headers i, ''scripts'' \<mapsto> install_scripts i,
          ''data'' \<mapsto> install_data i]"
  by (simp add: SCHEME_KEYS_def getattr_install_def)

lemma distutils_scheme_refused:
  assumes "finalize_options e d (user \<or> cfg_user e) (py_or home (cfg_home e))
             (py_or root (cfg_root e)) w = (Inl x, w1)"
  shows "distutils_scheme e d user home root w = (Inl x, w1)"
  using assms by (simp add: distutils_scheme_def)

lemma distutils_scheme_finalized:
  assumes "finalize_options e d (user \<or> cfg_user e) (py_or home (cfg_home e))
             (py_or root (cfg_root e)) w = (Inr i, w1)"
  shows "\<exists>scheme. distutils_scheme e d user home root w = (Inr scheme, w1) \<and>
           dom scheme = {''purelib'', ''platlib'', ''headers'', ''scripts'', ''data''} \<and>
           (\<forall>lib. install_lib i = Some lib \<longrightarrow>
              scheme ''purelib'' = Some lib \<and> scheme ''platlib'' = Some lib) \<and>
           (running_under_virtualenv e \<longrightarrow>
              scheme ''headers'' =
                Some (case root of
                        None \<Rightarrow> venv_headers e d
                      | Some r \<Rightarrow> path_join e r [drop 1 (path_abspath e (venv_headers e d))]))"
  using assms
  by (cases "install_lib i"; cases root)
     (auto simp: distutils_scheme_def scheme_of_SCHEME_KEYS Let_def)

lemma finalize_linux:
  "finalize_options env_linux d u h r w = (Inr linux_install, w)"
  by (simp add: env_linux_def)

lemma finalize_venv:
  "finalize_options env_venv d u h r w = (Inr linux_install, w)"
  by (simp add: env_venv_def env_linux_def)

text \<open>
  C5: for every distribution name, whenever the install command has resolved an
  \<open>install_lib\<close> that is not \<open>None\<close>, \<open>distutils_scheme\<close> returns a mapping whose
  \<open>purelib\<close> and \<open>platlib\<close> are both that value.
\<close>

theorem distutils_scheme_install_lib:
  assumes "finalize_options e d (user \<or> cfg_user e) (py_or home (cfg_home e))
             (py_or root (cfg_root e)) w = (Inr i, w1)"
      and "install_lib i = Some lib"
  shows "\<exists>scheme. distutils_scheme e d user home root w = (Inr scheme, w1) \<and>
           scheme ''purelib'' = Some lib \<and> scheme ''platlib'' = Some lib"
  using distutils_scheme_finalized [OF assms(1)] assms(2) by blast

theorem distutils_scheme_install_lib_witness:
  "finalize_options env_linux ''pkg'' (False \<or> cfg_user env_linux)
     (py_or None (cfg_home env_linux)) (py_or None (cfg_root env_linux)) world_empty =
     (Inr linux_install, world_empty) \<and>
   install_lib linux_install = Some ''/opt/pkgs/lib'' \<and>
   install_purelib linux_install = ''/usr/local/lib/python2.7/dist-packages'' \<and>
   (\<exists>scheme. distutils_scheme env_linux ''pkg'' False None None world_empty =
       (Inr scheme, world_empty) \<and>
      scheme ''purelib'' = Some ''/opt/pkgs/lib'' \<and> scheme ''platlib'' = Some ''/opt/pkgs/lib'')"
proof -
  have l: "install_lib linux_install = Some ''/opt/pkgs/lib''"
    by (simp add: linux_install_def)
  have p: "install_purelib linux_install = ''/usr/local/lib/python2.7/dist-packages''"
    by (simp add: linux_install_def)
  show ?thesis
    by (intro conjI finalize_linux l p distutils_scheme_install_lib [OF finalize_linux l])
qed

text \<open>
  C10: for every combination of \<open>dist_name\<close>, \<open>user\<close>, \<open>home\<close> and \<open>root\<close>, a mapping
  that \<open>distutils_scheme\<close> returns has exactly the five keys \<open>purelib\<close>, \<open>platlib\<close>,
  \<open>headers\<close>, \<open>scripts\<close> and \<open>data\<close>; and it returns a mapping unless
  \<open>finalize_options\<close> itself raises, in which case that exception is what it raises.
\<close>

theorem distutils_scheme_keys:
  "(\<forall>scheme w'. distutils_scheme e d user home root w = (Inr scheme, w') \<longrightarrow>
      dom scheme = {''purelib'', ''platlib'', ''headers'', ''scripts'', ''data''}) \<and>
   (\<forall>x w'. distutils_scheme e d user home root w = (Inl x, w') \<longrightarrow>
      finalize_options e d (user \<or> cfg_user e) (py_or home (cfg_home e))
        (py_or root (cfg_root e)) w = (Inl x, w'))"
proof -
  obtain r w1 where f: "finalize_options e d (user \<or> cfg_user e) (py_or home (cfg_home e))
      (py_or root (cfg_root e)) w = (r, w1)"
    by (cases "finalize_options e d (user \<or> cfg_user e) (py_or home (cfg_home e))
      (py_or root (cfg_root e)) w")
  show ?thesis
  proof (cases r)
    case (Inl x)
    with f have "distutils_scheme e d user home root w = (Inl x, w1)"
      by (simp add: distutils_scheme_refused)
    with f Inl show ?thesis by simp
  next
    case (Inr i)
    with f have "finalize_options e d (user \<or> cfg_user e) (py_or home (cfg_home e))
      (py_or root (cfg_root e)) w = (Inr i, w1)" by simp
    from distutils_scheme_finalized [OF this] obtain scheme where
      s: "distutils_scheme e d user home root w = (Inr scheme, w1)" and
      k: "dom scheme = {''purelib'', ''platlib'', ''headers'', ''scripts'', ''data''}"
      by blast
    show ?thesis unfolding s using k by simp
  qed
qed

theorem distutils_scheme_keys_witness:
  "\<exists>scheme. distutils_scheme env_venv ''pkg'' True (Some ''/home/alice'') (Some ''/alt/root'')
       world_venv = (Inr scheme, world_venv) \<and>
     dom scheme = {''purelib'', ''platlib'', ''headers'', ''scripts'', ''data''}"
proof -
  obtain scheme where
    s: "distutils_scheme env_venv ''pkg'' True (Some ''/home/alice'') (Some ''/alt/root'')
          world_venv = (Inr scheme, world_venv)"
    using distutils_scheme_finalized [OF finalize_venv] by blast
  have "dom scheme = {''purelib'', ''platlib'', ''headers'', ''scripts'', ''data''}"
    using distutils_scheme_keys
      [of env_venv "''pkg''" True "Some ''/home/alice''" "Some ''/alt/root''" world_venv] s
    by blast
  with s show ?thesis by blast
qed

section \<open>Absolute paths on POSIX\<close>

lemma posix_isabs_iff: "posix_isabs s \<longleftrightarrow> (\<exists>t. s = CHR ''/'' # t)"
  by (cases s) (auto simp: posix_isabs_def)

lemma posix_join_isabs: "posix_isabs a \<Longrightarrow> posix_isabs (posix_join a ps)"
proof (induction ps arbitrary: a)
  case Nil
  then show ?case by simp
next
  case (Cons b ps)
  have "posix_isabs (if posix_isabs b then b
                     else if a = [] \<or> last a = CHR ''/'' then a @ b
                     else a @ ''/'' @ b)"
    using Cons.prems by (auto simp: posix_isabs_iff)
  then show ?case using Cons.IH by simp
qed

lemma posix_normpath_isabs: "posix_isabs p \<Longrightarrow> posix_isabs (posix_normpath p)"
  by (auto simp: posix_normpath_def Let_def posix_isabs_iff numeral_2_eq_2)

lemma posix_abspath_isabs: "posix_isabs cwd \<Longrightarrow> posix_isabs (posix_abspath cwd p)"
proof (cases "posix_isabs p")
  case True
  then show ?thesis by (simp add: posix_abspath_def posix_normpath_isabs)
next
  case False
  assume "posix_isabs cwd"
  then have "posix_isabs (posix_join cwd [p])" by (rule posix_join_isabs)
  then have "posix_isabs (posix_normpath (posix_join cwd [p]))" by (rule posix_normpath_isabs)
  with False show ?thesis by (simp only: posix_abspath_def if_False)
qed

text \<open>On POSIX the character that \<open>[1:]\<close> drops from an absolute path is its leading slash.\<close>

lemma posix_abspath_drop_is_strip:
  "posix_isabs cwd \<Longrightarrow>
     drop 1 (posix_abspath cwd p) = strip_leading_sep (posix_abspath cwd p)"
  using posix_abspath_isabs [of cwd p]
  by (auto simp: posix_isabs_iff strip_leading_sep_def)

section \<open>The headers path of a virtual environment\<close>

text \<open>
  Where \<open>os.path.abspath\<close> is the POSIX one, the headers entry under a \<open>root\<close> is
  \<open>root\<close> joined with the absolute venv headers path stripped of its leading
  separator, and with no \<open>root\<close> it is the venv headers path.
\<close>

lemma distutils_scheme_headers_posix:
  assumes "running_under_virtualenv e"
      and "path_abspath e = posix_abspath cwd" and "posix_isabs cwd"
      and "finalize_options e d (user \<or> cfg_user e) (py_or home (cfg_home e))
             (py_or root (cfg_root e)) w = (Inr i, w1)"
  shows "scheme_entry ''headers'' (distutils_scheme e d user home root w) =
           Inr (Some (case root of
                        None \<Rightarrow> venv_headers e d
                      | Some r \<Rightarrow>
                          path_join e r [strip_leading_sep (path_abspath e (venv_headers e d))]))"
proof -
  from distutils_scheme_finalized [OF assms(4)] assms(1) obtain scheme where
    s: "distutils_scheme e d user home root w = (Inr scheme, w1)" and
    h: "scheme ''headers'' =
          Some (case root of
                  None \<Rightarrow> venv_headers e d
                | Some r \<Rightarrow> path_join e r [drop 1 (path_abspath e (venv_headers e d))])"
    by blast
  have "drop 1 (path_abspath e (venv_headers e d)) =
          strip_leading_sep (path_abspath e (venv_headers e d))"
    unfolding assms(2) by (rule posix_abspath_drop_is_strip [OF assms(3)])
  then show ?thesis
    by (simp only: scheme_entry_def s h fst_conv sum.case)
qed

lemma venv_headers_windows:
  "venv_headers env_windows ''pkg'' =
     ''C:'' @ [bs] @ ''venv'' @ [bs] @ ''include'' @ [bs] @ ''site'' @ [bs] @ ''python2.7''
       @ [bs] @ ''pkg''"
  by (simp add: venv_headers_def env_windows_def bs_def)

lemma finalize_windows:
  "\<exists>i. finalize_options env_windows d u h r w = (Inr i, w)"
  by (simp add: env_windows_def)

text \<open>
  C6: in a virtual environment, with a \<open>root\<close> the headers entry is claimed to be \<open>root\<close>
  joined with the absolute venv headers path stripped of its leading path separator. On
  Windows the absolute path begins with the drive letter: there is no leading separator
  to strip, \<open>[1:]\<close> drops the letter \<open>C\<close>, and what is joined to the root
  \<open>D:\alt\<close> begins with the colon.
\<close>

theorem distutils_scheme_headers_windows_drive:
  "running_under_virtualenv env_windows \<and>
   path_abspath env_windows (venv_headers env_windows ''pkg'') =
     ''C:'' @ [bs] @ ''venv'' @ [bs] @ ''include'' @ [bs] @ ''site'' @ [bs] @ ''python2.7''
       @ [bs] @ ''pkg'' \<and>
   strip_leading_sep (path_abspath env_windows (venv_headers env_windows ''pkg'')) =
     path_abspath env_windows (venv_headers env_windows ''pkg'') \<and>
   scheme_entry ''headers''
     (distutils_scheme env_windows ''pkg'' False None (Some (''D:'' @ [bs] @ ''alt'')) world_windows) =
     Inr (Some (''D:'' @ [bs] @ ''alt'' @ [bs] @ '':'' @ [bs] @ ''venv'' @ [bs] @ ''include''
                  @ [bs] @ ''site'' @ [bs] @ ''python2.7'' @ [bs] @ ''pkg''))"
proof -
  have v: "running_under_virtualenv env_windows"
    by (simp add: running_under_virtualenv_def env_windows_def)
  have a: "path_abspath env_windows (venv_headers env_windows ''pkg'') =
     ''C:'' @ [bs] @ ''venv'' @ [bs] @ ''include'' @ [bs] @ ''site'' @ [bs] @ ''python2.7''
       @ [bs] @ ''pkg''"
    unfolding venv_headers_windows by (simp add: env_windows_def)
  have t: "strip_leading_sep (path_abspath env_windows (venv_headers env_windows ''pkg'')) =
     path_abspath env_windows (venv_headers env_windows ''pkg'')"
    unfolding a by (simp add: strip_leading_sep_def)
  obtain i where f: "finalize_options env_windows ''pkg'' (False \<or> cfg_user env_windows)
      (py_or None (cfg_home env_windows))
      (py_or (Some (''D:'' @ [bs] @ ''alt'')) (cfg_root env_windows)) world_windows =
      (Inr i, world_windows)"
    using finalize_windows by blast
  from distutils_scheme_finalized [OF f] v obtain scheme where
    s: "distutils_scheme env_windows ''pkg'' False None (Some (''D:'' @ [bs] @ ''alt''))
          world_windows = (Inr scheme, world_windows)" and
    h: "scheme ''headers'' =
          Some (path_join env_windows (''D:'' @ [bs] @ ''alt'')
                  [drop 1 (path_abspath env_windows (venv_headers env_windows ''pkg''))])"
    by auto
  have j: "path_join env_windows (''D:'' @ [bs] @ ''alt'')
             [drop 1 (path_abspath env_windows (venv_headers env_windows ''pkg''))] =
      ''D:'' @ [bs] @ ''alt'' @ [bs] @ '':'' @ [bs] @ ''venv'' @ [bs] @ ''include''
        @ [bs] @ ''site'' @ [bs] @ ''python2.7'' @ [bs] @ ''pkg''"
    unfolding a by (simp add: env_windows_def bs_def)
  have "scheme_entry ''headers''
     (distutils_scheme env_windows ''pkg'' False None (Some (''D:'' @ [bs] @ ''alt'')) world_windows) =
     Inr (Some (''D:'' @ [bs] @ ''alt'' @ [bs] @ '':'' @ [bs] @ ''venv'' @ [bs] @ ''include''
                  @ [bs] @ ''site'' @ [bs] @ ''python2.7'' @ [bs] @ ''pkg''))"
    by (simp only: scheme_entry_def s h j fst_conv sum.case)
  with v a t show ?thesis by (intro conjI)
qed

section \<open>The values computed at import\<close>

lemma module_init_Inr:
  assumes "module_init e w = (Inr loc, w')"
  shows "resolve_prefixes e w = (Inr (build_prefix loc, src_prefix loc), w') \<and>
         paths loc = resolve_platform_paths e (files w')"
  using assms
  by (auto simp: module_init_def Let_def split: prod.splits sum.splits)

lemma module_init_of_prefixes:
  assumes "resolve_prefixes e w = (Inr (b, s), w')"
  shows "\<exists>loc. module_init e w = (Inr loc, w') \<and> build_prefix loc = b \<and> src_prefix loc = s \<and>
           paths loc = resolve_platform_paths e (files w')"
  using assms by (simp add: module_init_def Let_def)

lemma resolve_prefixes_Inr:
  assumes "resolve_prefixes e w = (Inr (b, s), w')"
  shows "\<exists>rb rs. raw_prefixes e w = (Inr (rb, rs), w') \<and>
           b = path_abspath e (path_realpath e (files w') rb) \<and> s = path_abspath e rs"
  using assms
  by (auto simp: resolve_prefixes_def split: prod.splits sum.splits)

lemma raw_prefixes_windows_world:
  assumes "WINDOWS e" and "raw_prefixes e w = (r, w')"
  shows "w' = w"
  using assms
  by (auto simp: raw_prefixes_def get_build_prefix_def Let_def
           split: if_splits sum.splits option.splits)

lemma resolve_platform_paths_windows:
  assumes "WINDOWS e"
  shows "bin_py (resolve_platform_paths e fs) =
           (if os_path_exists fs (path_join e (sys_prefix e) [''Scripts''])
            then path_join e (sys_prefix e) [''Scripts'']
            else path_join e (sys_prefix e) [''bin''])"
    and "bin_user (resolve_platform_paths e fs) =
           (if os_path_exists fs (path_join e (sys_prefix e) [''Scripts''])
            then path_join e (site_USER_SITE e) [''Scripts'']
            else path_join e (site_USER_SITE e) [''bin''])"
  using assms by (simp_all add: resolve_platform_paths_def Let_def)

lemma os_path_exists_directory:
  "fs p = Some (Directory u) \<Longrightarrow> os_path_exists fs p"
  by (simp add: os_path_exists_def MAXSYMLINKS_def eval_nat_numeral)

lemma os_path_exists_missing:
  "fs p = None \<Longrightarrow> \<not> os_path_exists fs p"
  by (simp add: os_path_exists_def MAXSYMLINKS_def eval_nat_numeral)

lemma virtualenv_windows: "running_under_virtualenv env_windows"
  by (simp add: running_under_virtualenv_def env_windows_def)

lemma resolve_prefixes_windows:
  "resolve_prefixes env_windows w =
     (Inr (''C:'' @ [bs] @ ''venv'' @ [bs] @ ''build'', ''C:'' @ [bs] @ ''venv'' @ [bs] @ ''src''), w)"
  by (simp add: resolve_prefixes_def raw_prefixes_def virtualenv_windows)
     (simp add: env_windows_def bs_def)

lemma scripts_windows:
  "path_join env_windows (sys_prefix env_windows) [''Scripts''] =
     ''C:'' @ [bs] @ ''venv'' @ [bs] @ ''Scripts''"
  by (simp add: env_windows_def bs_def)

text \<open>
  C8: on Windows, once the module is imported, if the \<open>Scripts\<close> directory under the
  interpreter prefix does not exist then \<open>bin_py\<close> is the prefix joined with \<open>bin\<close> and
  \<open>bin_user\<close> the user site joined with \<open>bin\<close>; otherwise they are the prefix and the
  user site joined with \<open>Scripts\<close>.
\<close>

theorem windows_bin_fallback:
  assumes "WINDOWS e" and "module_init e w = (Inr loc, w')"
  shows "(\<not> os_path_exists (files w) (path_join e (sys_prefix e) [''Scripts'']) \<longrightarrow>
            bin_py (paths loc) = path_join e (sys_prefix e) [''bin''] \<and>
            bin_user (paths loc) = path_join e (site_USER_SITE e) [''bin'']) \<and>
         (os_path_exists (files w) (path_join e (sys_prefix e) [''Scripts'']) \<longrightarrow>
            bin_py (paths loc) = path_join e (sys_prefix e) [''Scripts''] \<and>
            bin_user (paths loc) = path_join e (site_USER_SITE e) [''Scripts''])"
proof -
  from module_init_Inr [OF assms(2)] have
    r: "resolve_prefixes e w = (Inr (build_prefix loc, src_prefix loc), w')" and
    p: "paths loc = resolve_platform_paths e (files w')"
    by simp_all
  from resolve_prefixes_Inr [OF r] obtain rb rs where "raw_prefixes e w = (Inr (rb, rs), w')"
    by blast
  with assms(1) have "w' = w" by (rule raw_prefixes_windows_world)
  with p have "paths loc = resolve_platform_paths e (files w)" by simp
  then show ?thesis
    by (simp add: resolve_platform_paths_windows [OF assms(1)])
qed

theorem windows_bin_fallback_witness:
  "WINDOWS env_windows \<and>
   os_path_exists (files world_windows) (path_join env_windows (sys_prefix env_windows) [''Scripts'']) \<and>
   init_value (\<lambda>loc. bin_py (paths loc)) (module_init env_windows world_windows) =
     Inr (path_join env_windows (sys_prefix env_windows) [''Scripts'']) \<and>
   init_value (\<lambda>loc. bin_user (paths loc)) (module_init env_windows world_windows) =
     Inr (path_join env_windows (site_USER_SITE env_windows) [''Scripts'']) \<and>
   \<not> os_path_exists (files world_empty) (path_join env_windows (sys_prefix env_windows) [''Scripts'']) \<and>
   init_value (\<lambda>loc. bin_py (paths loc)) (module_init env_windows world_empty) =
     Inr (path_join env_windows (sys_prefix env_windows) [''bin'']) \<and>
   init_value (\<lambda>loc. bin_user (paths loc)) (module_init env_windows world_empty) =
     Inr (path_join env_windows (site_USER_SITE env_windows) [''bin''])"
proof -
  have x: "os_path_exists (files world_windows)
             (path_join env_windows (sys_prefix env_windows) [''Scripts''])"
    unfolding scripts_windows
    by (rule os_path_exists_directory [of _ _ 0]) (simp add: world_windows_def bs_def)
  have y: "\<not> os_path_exists (files world_empty)
             (path_join env_windows (sys_prefix env_windows) [''Scripts''])"
    by (rule os_path_exists_missing) (simp add: world_empty_def)
  obtain l1 where l1: "module_init env_windows world_windows = (Inr l1, world_windows)"
    using module_init_of_prefixes [OF resolve_prefixes_windows] by blast
  obtain l2 where l2: "module_init env_windows world_empty = (Inr l2, world_empty)"
    using module_init_of_prefixes [OF resolve_prefixes_windows] by blast
  have 1: "bin_py (paths l1) = path_join env_windows (sys_prefix env_windows) [''Scripts''] \<and>
           bin_user (paths l1) = path_join env_windows (site_USER_SITE env_windows) [''Scripts'']"
    using windows_bin_fallback [OF windows_windows l1] x by blast
  have 2: "bin_py (paths l2) = path_join env_windows (sys_prefix env_windows) [''bin''] \<and>
           bin_user (paths l2) = path_join env_windows (site_USER_SITE env_windows) [''bin'']"
    using windows_bin_fallback [OF windows_windows l2] y by blast
  show ?thesis
    using windows_windows x y 1 2 by (simp add: init_value_def l1 l2)
qed

lemma virtualenv_venv: "running_under_virtualenv env_venv"
  by (simp add: running_under_virtualenv_def env_venv_def)

lemma resolve_prefixes_venv:
  "resolve_prefixes env_venv world_venv =
     (Inr (''/private/tmp/venv/build'', ''/tmp/venv/src''), world_venv)"
proof -
  have r: "raw_prefixes env_venv world_venv = (Inr (''/tmp/venv/build'', ''/tmp/venv/src''), world_venv)"
    by (simp add: raw_prefixes_def virtualenv_venv)
       (simp add: env_venv_def env_linux_def posix_isabs_def)
  have p: "path_realpath env_venv (files world_venv) ''/tmp/venv/build'' = ''/private/tmp/venv/build''"
    by (simp add: env_venv_def world_venv_def)
  have a: "path_abspath env_venv ''/private/tmp/venv/build'' = ''/private/tmp/venv/build''"
    by (simp add: env_venv_def env_linux_def posix_abspath_def posix_normpath_def posix_isabs_def
        normpath_step_def Let_def)
  have b: "path_abspath env_venv ''/tmp/venv/src'' = ''/tmp/venv/src''"
    by (simp add: env_venv_def env_linux_def posix_abspath_def posix_normpath_def posix_isabs_def
        normpath_step_def Let_def)
  show ?thesis
    by (simp add: resolve_prefixes_def r p a b)
qed

lemma posix_binding_venv:
  "path_abspath env_venv = posix_abspath ''/home/alice/proj'' \<and> posix_isabs ''/home/alice/proj''"
  by (simp add: env_venv_def env_linux_def posix_isabs_def)

lemma posix_binding_linux:
  "path_abspath env_linux = posix_abspath ''/home/alice/proj'' \<and> posix_isabs ''/home/alice/proj''"
  by (simp add: env_linux_def posix_isabs_def)

lemma abspath_venv_isabs: "path_isabs env_venv (path_abspath env_venv p)"
proof -
  have "posix_isabs (posix_abspath ''/home/alice/proj'' p)"
    by (rule posix_abspath_isabs) (simp add: posix_isabs_def)
  then show ?thesis by (simp add: env_venv_def env_linux_def)
qed

lemma not_virtualenv_linux: "\<not> running_under_virtualenv env_linux"
  by (simp add: running_under_virtualenv_def base_prefix_def env_linux_def)

lemma resolve_prefixes_linux_own:
  "resolve_prefixes env_linux world_own_build =
     (Inr (''/tmp/pip_build_alice_smith'', ''/home/alice/proj/src''), world_own_build)"
proof -
  have c: "getcwd env_linux = Some ''/home/alice/proj''"
    by (simp add: env_linux_def)
  have j: "path_join env_linux ''/home/alice/proj'' [''src''] = ''/home/alice/proj/src''"
    by (simp add: env_linux_def posix_isabs_def)
  have r: "raw_prefixes env_linux world_own_build =
      (Inr (''/tmp/pip_build_alice_smith'', ''/home/alice/proj/src''), world_own_build)"
    by (simp add: raw_prefixes_def not_virtualenv_linux get_build_prefix_linux_own c j)
  have p: "path_realpath env_linux (files world_own_build) ''/tmp/pip_build_alice_smith'' =
      ''/tmp/pip_build_alice_smith''"
    by (simp add: env_linux_def posix_abspath_def posix_normpath_def posix_isabs_def
        normpath_step_def Let_def)
  have a: "path_abspath env_linux ''/tmp/pip_build_alice_smith'' = ''/tmp/pip_build_alice_smith''"
    by (simp add: env_linux_def posix_abspath_def posix_normpath_def posix_isabs_def
        normpath_step_def Let_def)
  have b: "path_abspath env_linux ''/home/alice/proj/src'' = ''/home/alice/proj/src''"
    by (simp add: env_linux_def posix_abspath_def posix_normpath_def posix_isabs_def
        normpath_step_def Let_def)
  show ?thesis
    by (simp add: resolve_prefixes_def r p a b)
qed

lemma raw_prefixes_virtualenv:
  assumes "running_under_virtualenv e"
  shows "raw_prefixes e w =
           (Inr (path_join e (sys_prefix e) [''build''], path_join e (sys_prefix e) [''src'']), w)"
  using assms by (simp add: raw_prefixes_def)

lemma get_build_prefix_Inr_username:
  assumes "get_build_prefix e w = (Inr b, w')"
  shows "\<exists>u. get_username e = Inr u \<and> b = build_path e u"
proof (cases "get_username e")
  case (Inl x)
  with assms show ?thesis by (simp add: get_build_prefix_def)
next
  case (Inr u)
  with assms get_build_prefix_result_path show ?thesis by blast
qed

lemma raw_prefixes_global:
  assumes "\<not> running_under_virtualenv e" and "raw_prefixes e w = (Inr (b, s), w')"
  shows "\<exists>u c. get_username e = Inr u \<and> getcwd e = Some c \<and>
           get_build_prefix e w = (Inr (build_path e u), w') \<and>
           b = build_path e u \<and> s = path_join e c [''src'']"
proof -
  from assms have g: "get_build_prefix e w = (Inr b, w')" and
      c: "\<exists>c. getcwd e = Some c \<and> s = path_join e c [''src'']"
    by (auto simp: raw_prefixes_def split: prod.splits sum.splits option.splits)
  from get_build_prefix_Inr_username [OF g] obtain u where
    "get_username e = Inr u" and "b = build_path e u"
    by blast
  with g c show ?thesis by blast
qed

text \<open>
  C7, as amended: once the module is imported, in a virtual environment and outside
  one, \<open>build_prefix\<close> is \<open>os.path.abspath\<close> of \<open>os.path.realpath\<close> of the build prefix
  chosen at lines 146 to 161 (the prefix joined with \<open>build\<close>, or the path that
  \<open>_get_build_prefix\<close> returned), and \<open>src_prefix\<close> is \<open>os.path.abspath\<close> of the chosen
  src prefix (the prefix or the working directory, joined with \<open>src\<close>), to which
  \<open>os.path.realpath\<close> is never applied. So \<open>build_prefix\<close> is symlink-resolved as far
  as the platform's \<open>os.path.realpath\<close> resolves, and \<open>src_prefix\<close> is not. Both are
  absolute wherever \<open>os.path.abspath\<close> returns absolute paths, which \<open>posixpath.abspath\<close>
  does for every path once the working directory is absolute.
\<close>

theorem prefixes_normalised:
  assumes "module_init e w = (Inr loc, w')"
  shows "(running_under_virtualenv e \<longrightarrow>
            w' = w \<and>
            build_prefix loc =
              path_abspath e (path_realpath e (files w) (path_join e (sys_prefix e) [''build''])) \<and>
            src_prefix loc = path_abspath e (path_join e (sys_prefix e) [''src''])) \<and>
         (\<not> running_under_virtualenv e \<longrightarrow>
            (\<exists>u c. get_username e = Inr u \<and> getcwd e = Some c \<and>
               get_build_prefix e w = (Inr (build_path e u), w') \<and>
               build_prefix loc = path_abspath e (path_realpath e (files w') (build_path e u)) \<and>
               src_prefix loc = path_abspath e (path_join e c [''src'']))) \<and>
         ((\<forall>p. path_isabs e (path_abspath e p)) \<longrightarrow>
            path_isabs e (build_prefix loc) \<and> path_isabs e (src_prefix loc)) \<and>
         (path_abspath e = posix_abspath cwd \<and> posix_isabs cwd \<longrightarrow>
            posix_isabs (build_prefix loc) \<and> posix_isabs (src_prefix loc))"
proof -
  from module_init_Inr [OF assms] have
    "resolve_prefixes e w = (Inr (build_prefix loc, src_prefix loc), w')"
    by simp
  from resolve_prefixes_Inr [OF this] obtain b s where
    r: "raw_prefixes e w = (Inr (b, s), w')" and
    bp: "build_prefix loc = path_abspath e (path_realpath e (files w') b)" and
    sp: "src_prefix loc = path_abspath e s"
    by blast
  have 1: "running_under_virtualenv e \<longrightarrow>
            w' = w \<and>
            build_prefix loc =
              path_abspath e (path_realpath e (files w) (path_join e (sys_prefix e) [''build''])) \<and>
            src_prefix loc = path_abspath e (path_join e (sys_prefix e) [''src''])"
  proof
    assume "running_under_virtualenv e"
    from raw_prefixes_virtualenv [OF this, of w] r have
      "b = path_join e (sys_prefix e) [''build'']" and
      "s = path_join e (sys_prefix e) [''src'']" and "w' = w"
      by simp_all
    with bp sp show "w' = w \<and>
            build_prefix loc =
              path_abspath e (path_realpath e (files w) (path_join e (sys_prefix e) [''build''])) \<and>
            src_prefix loc = path_abspath e (path_join e (sys_prefix e) [''src''])"
      by simp
  qed
  have 2: "\<not> running_under_virtualenv e \<longrightarrow>
            (\<exists>u c. get_username e = Inr u \<and> getcwd e = Some c \<and>
               get_build_prefix e w = (Inr (build_path e u), w') \<and>
               build_prefix loc = path_abspath e (path_realpath e (files w') (build_path e u)) \<and>
               src_prefix loc = path_abspath e (path_join e c [''src'']))"
  proof
    assume "\<not> running_under_virtualenv e"
    from raw_prefixes_global [OF this r] obtain u c where
      "get_username e = Inr u" and "getcwd e = Some c" and
      "get_build_prefix e w = (Inr (build_path e u), w')" and
      "b = build_path e u" and "s = path_join e c [''src'']"
      by blast
    with bp sp show "\<exists>u c. get_username e = Inr u \<and> getcwd e = Some c \<and>
               get_build_prefix e w = (Inr (build_path e u), w') \<and>
               build_prefix loc = path_abspath e (path_realpath e (files w') (build_path e u)) \<and>
               src_prefix loc = path_abspath e (path_join e c [''src''])"
      by blast
  qed
  have 3: "(\<forall>p. path_isabs e (path_abspath e p)) \<longrightarrow>
            path_isabs e (build_prefix loc) \<and> path_isabs e (src_prefix loc)"
    unfolding bp sp by blast
  have 4: "path_abspath e = posix_abspath cwd \<and> posix_isabs cwd \<longrightarrow>
            posix_isabs (build_prefix loc) \<and> posix_isabs (src_prefix loc)"
  proof
    assume a: "path_abspath e = posix_abspath cwd \<and> posix_isabs cwd"
    then have "posix_isabs (posix_abspath cwd (path_realpath e (files w') b))" and
        "posix_isabs (posix_abspath cwd s)"
      by (simp_all add: posix_abspath_isabs)
    with a show "posix_isabs (build_prefix loc) \<and> posix_isabs (src_prefix loc)"
      by (simp add: bp sp)
  qed
  from 1 2 3 4 show ?thesis by (intro conjI)
qed

theorem prefixes_normalised_witness:
  "running_under_virtualenv env_venv \<and>
   init_value build_prefix (module_init env_venv world_venv) = Inr ''/private/tmp/venv/build'' \<and>
   init_value src_prefix (module_init env_venv world_venv) = Inr ''/tmp/venv/src'' \<and>
   (\<forall>p. path_isabs env_venv (path_abspath env_venv p)) \<and>
   path_isabs env_venv ''/private/tmp/venv/build'' \<and>
   path_isabs env_venv ''/tmp/venv/src'' \<and>
   \<not> running_under_virtualenv env_linux \<and>
   get_username env_linux = Inr ''alice smith'' \<and>
   getcwd env_linux = Some ''/home/alice/proj'' \<and>
   init_value build_prefix (module_init env_linux world_own_build) =
     Inr ''/tmp/pip_build_alice_smith'' \<and>
   init_value src_prefix (module_init env_linux world_own_build) = Inr ''/home/alice/proj/src'' \<and>
   path_abspath env_linux = posix_abspath ''/home/alice/proj'' \<and>
   posix_isabs ''/home/alice/proj'' \<and>
   posix_isabs ''/tmp/pip_build_alice_smith'' \<and>
   posix_isabs ''/home/alice/proj/src''"
proof -
  obtain l1 where
    l1: "module_init env_venv world_venv = (Inr l1, world_venv)" and
    b1: "build_prefix l1 = ''/private/tmp/venv/build''" and
    s1: "src_prefix l1 = ''/tmp/venv/src''"
    using module_init_of_prefixes [OF resolve_prefixes_venv] by blast
  obtain l2 where
    l2: "module_init env_linux world_own_build = (Inr l2, world_own_build)" and
    b2: "build_prefix l2 = ''/tmp/pip_build_alice_smith''" and
    s2: "src_prefix l2 = ''/home/alice/proj/src''"
    using module_init_of_prefixes [OF resolve_prefixes_linux_own] by blast
  have a: "\<forall>p. path_isabs env_venv (path_abspath env_venv p)"
    using abspath_venv_isabs by blast
  have c: "getcwd env_linux = Some ''/home/alice/proj''"
    by (simp add: env_linux_def)
  have 1: "path_isabs env_venv (build_prefix l1) \<and> path_isabs env_venv (src_prefix l1)"
    using prefixes_normalised [OF l1] a by blast
  have 2: "posix_isabs (build_prefix l2) \<and> posix_isabs (src_prefix l2)"
    using prefixes_normalised [OF l2, of "''/home/alice/proj''"] posix_binding_linux by blast
  have i1: "init_value build_prefix (module_init env_venv world_venv) =
      Inr ''/private/tmp/venv/build''"
    by (simp add: init_value_def l1 b1)
  have i2: "init_value src_prefix (module_init env_venv world_venv) = Inr ''/tmp/venv/src''"
    by (simp add: init_value_def l1 s1)
  have i3: "init_value build_prefix (module_init env_linux world_own_build) =
      Inr ''/tmp/pip_build_alice_smith''"
    by (simp add: init_value_def l2 b2)
  have i4: "init_value src_prefix (module_init env_linux world_own_build) =
      Inr ''/home/alice/proj/src''"
    by (simp add: init_value_def l2 s2)
  from 1 have q1: "path_isabs env_venv ''/private/tmp/venv/build'' \<and>
      path_isabs env_venv ''/tmp/venv/src''"
    by (simp only: b1 s1)
  from 2 have q2: "posix_isabs ''/tmp/pip_build_alice_smith'' \<and>
      posix_isabs ''/home/alice/proj/src''"
    by (simp only: b2 s2)
  from virtualenv_venv i1 i2 a q1 not_virtualenv_linux username_linux c i3 i4
    posix_binding_linux q2
  show ?thesis by (intro conjI) (erule conjunct1 conjunct2 | assumption)+
qed

lemma not_virtualenv_windows_global: "\<not> running_under_virtualenv env_windows_global"
  by (simp add: running_under_virtualenv_def base_prefix_def env_windows_global_def
      env_windows_def)

lemma resolve_prefixes_windows_global:
  "resolve_prefixes env_windows_global world_windows =
     (Inr (''C:'' @ [bs] @ ''Temp'' @ [bs] @ ''pip_build_bob'',
           ''C:'' @ [bs] @ ''proj'' @ [bs] @ ''src''), world_windows)"
proof -
  have g: "get_build_prefix env_windows_global world_windows =
      (Inr (''C:'' @ [bs] @ ''Temp'' @ [bs] @ ''pip_build_bob''), world_windows)"
    by (simp add: get_build_prefix_def get_username_def build_path_def replace_char_def
        env_windows_global_def env_windows_def bs_def Let_def)
  have c: "getcwd env_windows_global = Some (''C:'' @ [bs] @ ''proj'')"
    by (simp add: env_windows_global_def env_windows_def)
  have j: "path_join env_windows_global (''C:'' @ [bs] @ ''proj'') [''src''] =
      ''C:'' @ [bs] @ ''proj'' @ [bs] @ ''src''"
    by (simp add: env_windows_global_def env_windows_def bs_def)
  have r: "raw_prefixes env_windows_global world_windows =
      (Inr (''C:'' @ [bs] @ ''Temp'' @ [bs] @ ''pip_build_bob'',
            ''C:'' @ [bs] @ ''proj'' @ [bs] @ ''src''), world_windows)"
    by (simp only: raw_prefixes_def not_virtualenv_windows_global g c j if_False prod.case
        sum.case option.case)
  have a: "path_abspath env_windows_global p = p" for p
    by (simp add: env_windows_global_def env_windows_def)
  have p: "path_realpath env_windows_global fs p = p" for fs p
    by (simp add: env_windows_global_def env_windows_def)
  show ?thesis
    by (simp add: resolve_prefixes_def r a p)
qed

text \<open>
  C7, as stated, fails. For \<open>src_prefix\<close>: in a virtual environment under \<open>/tmp\<close>, a
  symbolic link to \<open>/private/tmp\<close>, the import leaves \<open>src_prefix\<close> at
  \<open>/tmp/venv/src\<close>, whose real path is \<open>/private/tmp/venv/src\<close>, while \<open>build_prefix\<close>
  is resolved. For \<open>build_prefix\<close>: on Windows outside a virtual environment, where
  \<open>os.path.realpath\<close> resolves nothing, \<open>build_prefix\<close> is the build path itself, here
  a symbolic link.
\<close>

theorem src_prefix_not_symlink_resolved:
  "running_under_virtualenv env_venv \<and>
   files world_venv ''/tmp'' = Some (Symlink ''/private/tmp'') \<and>
   init_value src_prefix (module_init env_venv world_venv) = Inr ''/tmp/venv/src'' \<and>
   snd (module_init env_venv world_venv) = world_venv \<and>
   path_realpath env_venv (files world_venv) ''/tmp/venv/src'' = ''/private/tmp/venv/src'' \<and>
   init_value build_prefix (module_init env_venv world_venv) = Inr ''/private/tmp/venv/build'' \<and>
   \<not> running_under_virtualenv env_windows_global \<and>
   init_value build_prefix (module_init env_windows_global world_windows) =
     Inr (''C:'' @ [bs] @ ''Temp'' @ [bs] @ ''pip_build_bob'') \<and>
   files world_windows (''C:'' @ [bs] @ ''Temp'' @ [bs] @ ''pip_build_bob'') =
     Some (Symlink (''C:'' @ [bs] @ ''Users'' @ [bs] @ ''eve''))"
proof -
  obtain loc where
    l: "module_init env_venv world_venv = (Inr loc, world_venv)" and
    b: "build_prefix loc = ''/private/tmp/venv/build''" and
    s: "src_prefix loc = ''/tmp/venv/src''"
    using module_init_of_prefixes [OF resolve_prefixes_venv] by blast
  obtain lw where
    lw: "module_init env_windows_global world_windows = (Inr lw, world_windows)" and
    bw: "build_prefix lw = ''C:'' @ [bs] @ ''Temp'' @ [bs] @ ''pip_build_bob''"
    using module_init_of_prefixes [OF resolve_prefixes_windows_global] by blast
  have f: "files world_venv ''/tmp'' = Some (Symlink ''/private/tmp'')"
    by (simp add: world_venv_def)
  have p: "path_realpath env_venv (files world_venv) ''/tmp/venv/src'' = ''/private/tmp/venv/src''"
    by (simp add: env_venv_def f)
  have i1: "init_value src_prefix (module_init env_venv world_venv) = Inr ''/tmp/venv/src''"
    by (simp add: init_value_def l s)
  have i2: "snd (module_init env_venv world_venv) = world_venv"
    by (simp add: l)
  have i3: "init_value build_prefix (module_init env_venv world_venv) =
      Inr ''/private/tmp/venv/build''"
    by (simp add: init_value_def l b)
  have i4: "init_value build_prefix (module_init env_windows_global world_windows) =
     Inr (''C:'' @ [bs] @ ''Temp'' @ [bs] @ ''pip_build_bob'')"
    by (simp add: init_value_def lw bw)
  have k: "files world_windows (''C:'' @ [bs] @ ''Temp'' @ [bs] @ ''pip_build_bob'') =
     Some (Symlink (''C:'' @ [bs] @ ''Users'' @ [bs] @ ''eve''))"
    by (simp add: world_windows_def bs_def)
  from virtualenv_venv f i1 i2 p i3 not_virtualenv_windows_global i4 k
  show ?thesis by (intro conjI)
qed

end
